theory Spec2Isabelle
  imports Main "HOL-Library.Word" "HOL-Library.Multiset"
begin

section \<open>Values\<close>

text \<open>
  A UUID is a 128-bit identifier; only equality is used on it. A \<^verbatim>\<open>datetime\<close> is
  a point on the time line, held as its offset from the epoch; only its order is used.
\<close>

type_synonym uuid = "128 word"
type_synonym datetime = int

text \<open>
  The values found in the rows the database client hands back and in keyword
  arguments. A row is a Python \<^verbatim>\<open>dict\<close> from column name to value. On the wire a
  uuid and a timestamp are text that the schema layer parses; the model holds them
  parsed (\<open>JUuid\<close>, \<open>JTime\<close>), so \<^verbatim>\<open>str(pilot_id)\<close> is \<open>JUuid pilot_id\<close>.
  \<open>JNull\<close> is \<^verbatim>\<open>None\<close>, \<open>JObj\<close> a nested dict.
\<close>

datatype jval =
    JNull
  | JBool bool
  | JInt int
  | JStr string
  | JUuid uuid
  | JTime datetime
  | JObj "(string \<times> jval) list"

type_synonym pydict = "(string \<times> jval) list"

datatype error =
    HTTPException nat string
  | APIError
  | ValidationError
  | AttributeError
  | TypeError

definition and_then :: "error + 'a \<Rightarrow> ('a \<Rightarrow> error + 'b) \<Rightarrow> error + 'b" where
  "and_then r f = (case r of Inl e \<Rightarrow> Inl e | Inr x \<Rightarrow> f x)"

text \<open>\<^verbatim>\<open>d.pop(k, default)\<close>: the value and the dict without the key.\<close>

definition dict_pop :: "string \<Rightarrow> jval \<Rightarrow> pydict \<Rightarrow> jval \<times> pydict" where
  "dict_pop k dflt d =
     (case map_of d k of
        None \<Rightarrow> (dflt, d)
      | Some v \<Rightarrow> (v, filter (\<lambda>kv. fst kv \<noteq> k) d))"

text \<open>
  \<^verbatim>\<open>v.get(k, default)\<close>: only a dict has the method; on \<^verbatim>\<open>None\<close> (and on any
  other value) the attribute lookup raises AttributeError.
\<close>

definition dict_get :: "jval \<Rightarrow> string \<Rightarrow> jval \<Rightarrow> error + jval" where
  "dict_get v k dflt =
     (case v of
        JObj d \<Rightarrow> Inr (case map_of d k of None \<Rightarrow> dflt | Some x \<Rightarrow> x)
      | _ \<Rightarrow> Inl AttributeError)"

section \<open>Schema layer (app/models)\<close>

text \<open>
  A pydantic model is built from keyword arguments: a field without a default must be
  given with a value of its type, a field with a default takes it when the keyword is
  absent, and \<^verbatim>\<open>T | None\<close> also takes \<^verbatim>\<open>None\<close>. Keywords that name no field are
  ignored. A value of another type is a ValidationError (pydantic's coercions between
  types are not modelled).
\<close>

definition field_uuid :: "pydict \<Rightarrow> string \<Rightarrow> error + uuid" where
  "field_uuid kw k =
     (case map_of kw k of Some (JUuid u) \<Rightarrow> Inr u | _ \<Rightarrow> Inl ValidationError)"

definition field_int :: "pydict \<Rightarrow> string \<Rightarrow> error + int" where
  "field_int kw k =
     (case map_of kw k of Some (JInt i) \<Rightarrow> Inr i | _ \<Rightarrow> Inl ValidationError)"

definition field_str :: "pydict \<Rightarrow> string \<Rightarrow> error + string" where
  "field_str kw k =
     (case map_of kw k of Some (JStr s) \<Rightarrow> Inr s | _ \<Rightarrow> Inl ValidationError)"

definition field_datetime :: "pydict \<Rightarrow> string \<Rightarrow> error + datetime" where
  "field_datetime kw k =
     (case map_of kw k of Some (JTime t) \<Rightarrow> Inr t | _ \<Rightarrow> Inl ValidationError)"

text \<open>\<^verbatim>\<open>x: str | None = None\<close> and \<^verbatim>\<open>x: UUID | None = None\<close>.\<close>

definition field_str_opt :: "pydict \<Rightarrow> string \<Rightarrow> error + string option" where
  "field_str_opt kw k =
     (case map_of kw k of
        None \<Rightarrow> Inr None
      | Some JNull \<Rightarrow> Inr None
      | Some (JStr s) \<Rightarrow> Inr (Some s)
      | _ \<Rightarrow> Inl ValidationError)"

definition field_uuid_opt :: "pydict \<Rightarrow> string \<Rightarrow> error + uuid option" where
  "field_uuid_opt kw k =
     (case map_of kw k of
        None \<Rightarrow> Inr None
      | Some JNull \<Rightarrow> Inr None
      | Some (JUuid u) \<Rightarrow> Inr (Some u)
      | _ \<Rightarrow> Inl ValidationError)"

text \<open>\<^verbatim>\<open>x: bool = dflt\<close>.\<close>

definition field_bool_default :: "pydict \<Rightarrow> string \<Rightarrow> bool \<Rightarrow> error + bool" where
  "field_bool_default kw k dflt =
     (case map_of kw k of
        None \<Rightarrow> Inr dflt
      | Some (JBool b) \<Rightarrow> Inr b
      | _ \<Rightarrow> Inl ValidationError)"

subsection \<open>app/models/reputation.py\<close>

text \<open>
  Field names are global in Isabelle, so each carries a prefix for its model family
  (\<open>ch_\<close> reputation change, \<open>pr_\<close> pilot reputation, \<open>gear_\<close> gear, \<open>upd_\<close> gear
  update); after the prefix the name is the source's. Inheritance is record extension.
\<close>

record ReputationChangeCreate =
  ch_corporation_id :: uuid
  ch_change_value :: int
  ch_notes :: "string option"

record ReputationChange = ReputationChangeCreate +
  ch_id :: uuid
  ch_log_entry_id :: uuid
  ch_pilot_id :: uuid
  ch_created_at :: datetime

record ReputationChangeWithCorp = ReputationChange +
  ch_corporation_name :: string

record PilotReputation =
  pr_pilot_id :: uuid
  pr_corporation_id :: uuid
  pr_corporation_name :: string
  pr_reputation_value :: int

text \<open>\<^verbatim>\<open>ReputationChangeWithCorp(**kw)\<close>\<close>

definition new_ReputationChangeWithCorp :: "pydict \<Rightarrow> error + ReputationChangeWithCorp" where
  "new_ReputationChangeWithCorp kw =
     and_then (field_uuid kw ''corporation_id'') (\<lambda>corp.
     and_then (field_int kw ''change_value'') (\<lambda>v.
     and_then (field_str_opt kw ''notes'') (\<lambda>n.
     and_then (field_uuid kw ''id'') (\<lambda>i.
     and_then (field_uuid kw ''log_entry_id'') (\<lambda>l.
     and_then (field_uuid kw ''pilot_id'') (\<lambda>p.
     and_then (field_datetime kw ''created_at'') (\<lambda>t.
     and_then (field_str kw ''corporation_name'') (\<lambda>name.
       Inr \<lparr>ch_corporation_id = corp, ch_change_value = v, ch_notes = n, ch_id = i,
            ch_log_entry_id = l, ch_pilot_id = p, ch_created_at = t,
            ch_corporation_name = name\<rparr>))))))))"

text \<open>\<^verbatim>\<open>PilotReputation(**kw)\<close>\<close>

definition new_PilotReputation :: "pydict \<Rightarrow> error + PilotReputation" where
  "new_PilotReputation kw =
     and_then (field_uuid kw ''pilot_id'') (\<lambda>p.
     and_then (field_uuid kw ''corporation_id'') (\<lambda>corp.
     and_then (field_str kw ''corporation_name'') (\<lambda>name.
     and_then (field_int kw ''reputation_value'') (\<lambda>v.
       Inr \<lparr>pr_pilot_id = p, pr_corporation_id = corp, pr_corporation_name = name,
            pr_reputation_value = v\<rparr>))))"

subsection \<open>app/models/gear.py\<close>

record GearBase =
  gear_name :: string
  gear_description :: "string option"
  gear_notes :: "string option"

record GearUpdate =
  upd_name :: "string option"
  upd_description :: "string option"
  upd_notes :: "string option"

record ExoticGear = GearBase +
  gear_id :: uuid
  gear_pilot_id :: uuid
  gear_acquired_date :: datetime
  gear_acquired_log_id :: "uuid option"
  gear_lost_log_id :: "uuid option"
  gear_created_at :: datetime
  gear_updated_at :: datetime

record ExoticGearWithLogInfo = ExoticGear +
  gear_is_lost :: bool

text \<open>\<^verbatim>\<open>GearUpdate(**kw)\<close>\<close>

definition new_GearUpdate :: "pydict \<Rightarrow> error + GearUpdate" where
  "new_GearUpdate kw =
     and_then (field_str_opt kw ''name'') (\<lambda>n.
     and_then (field_str_opt kw ''description'') (\<lambda>d.
     and_then (field_str_opt kw ''notes'') (\<lambda>s.
       Inr \<lparr>upd_name = n, upd_description = d, upd_notes = s\<rparr>)))"

text \<open>
  \<^verbatim>\<open>ExoticGearWithLogInfo(**kw)\<close>: \<^verbatim>\<open>is_lost\<close> is a plain field with the default
  \<^verbatim>\<open>False\<close>; the class has no validator that reads \<^verbatim>\<open>lost_log_id\<close>.
\<close>

definition new_ExoticGearWithLogInfo :: "pydict \<Rightarrow> error + ExoticGearWithLogInfo" where
  "new_ExoticGearWithLogInfo kw =
     and_then (field_str kw ''name'') (\<lambda>n.
     and_then (field_str_opt kw ''description'') (\<lambda>d.
     and_then (field_str_opt kw ''notes'') (\<lambda>s.
     and_then (field_uuid kw ''id'') (\<lambda>i.
     and_then (field_uuid kw ''pilot_id'') (\<lambda>p.
     and_then (field_datetime kw ''acquired_date'') (\<lambda>a.
     and_then (field_uuid_opt kw ''acquired_log_id'') (\<lambda>al.
     and_then (field_uuid_opt kw ''lost_log_id'') (\<lambda>ll.
     and_then (field_datetime kw ''created_at'') (\<lambda>c.
     and_then (field_datetime kw ''updated_at'') (\<lambda>u.
     and_then (field_bool_default kw ''is_lost'' False) (\<lambda>lost.
       Inr \<lparr>gear_name = n, gear_description = d, gear_notes = s, gear_id = i,
            gear_pilot_id = p, gear_acquired_date = a, gear_acquired_log_id = al,
            gear_lost_log_id = ll, gear_created_at = c, gear_updated_at = u,
            gear_is_lost = lost\<rparr>)))))))))))"

section \<open>The database client as the router sees it\<close>

text \<open>
  The router builds a request with the client's table builder and runs it with
  \<^verbatim>\<open>.execute()\<close>. A request names the table, what is done to it
  (\<^verbatim>\<open>.select(cols)\<close>, or \<^verbatim>\<open>.delete()\<close>, the builder's row-removing call, which this
  router never makes), the \<^verbatim>\<open>.eq(column, value)\<close> filters in the order written, the
  \<^verbatim>\<open>.order(column, desc=...)\<close> clause and whether \<^verbatim>\<open>.single()\<close> was asked for.
\<close>

datatype action = Select string | Delete

record request =
  table :: string
  action :: action
  eqs :: "(string \<times> jval) list"
  order :: "(string \<times> bool) option"
  single :: bool

text \<open>\<^verbatim>\<open>result.data\<close>: \<^verbatim>\<open>None\<close>, one row, or a list of rows.\<close>

datatype data = NoData | OneRow pydict | Rows "pydict list"

text \<open>
  The client is the \<^verbatim>\<open>db\<close> argument every operation receives: it answers a request
  in a state of the backend (of any type \<open>'s\<close>) with an exception or a response, and a
  new state. \<open>execute\<close> runs it and records the request as issued.
\<close>

type_synonym 's client = "request \<Rightarrow> 's \<Rightarrow> (error + data) \<times> 's"

record 's world =
  backend :: 's
  issued :: "request list"

definition execute :: "'s client \<Rightarrow> request \<Rightarrow> 's world \<Rightarrow> (error + data) \<times> 's world" where
  "execute db q w =
     (case db q (backend w) of
        (r, s') \<Rightarrow> (r, \<lparr>backend = s', issued = issued w @ [q]\<rparr>))"

text \<open>\<^verbatim>\<open>app.models.user.User\<close>: only its \<^verbatim>\<open>id\<close> is read.\<close>

record User =
  user_id :: uuid

section \<open>Router (app/routers/reputation.py)\<close>

definition pilots_query :: "uuid \<Rightarrow> User \<Rightarrow> request" where
  "pilots_query pilot_id current_user =
     \<lparr>table = ''pilots'', action = Select ''id'',
      eqs = [(''id'', JUuid pilot_id), (''user_id'', JUuid (user_id current_user))],
      order = None, single = True\<rparr>"

definition verify_pilot_ownership ::
  "uuid \<Rightarrow> User \<Rightarrow> 's client \<Rightarrow> 's world \<Rightarrow> (error + bool) \<times> 's world" where
  "verify_pilot_ownership pilot_id current_user db w =
     (case execute db (pilots_query pilot_id current_user) w of
        (Inl e, w') \<Rightarrow> (Inl e, w')
      | (Inr result, w') \<Rightarrow> (Inr (result \<noteq> NoData), w'))"

definition reputation_query :: "uuid \<Rightarrow> request" where
  "reputation_query pilot_id =
     \<lparr>table = ''pilot_reputation'', action = Select ''*'',
      eqs = [(''pilot_id'', JUuid pilot_id)], order = None, single = False\<rparr>"

text \<open>
  \<^verbatim>\<open>[PilotReputation(**r) for r in result.data]\<close>; the first row that does not
  validate raises.
\<close>

fun reputation_rows :: "pydict list \<Rightarrow> error + PilotReputation list" where
  "reputation_rows [] = Inr []"
| "reputation_rows (r # rs) =
     and_then (new_PilotReputation r) (\<lambda>p.
     and_then (reputation_rows rs) (\<lambda>ps. Inr (p # ps)))"

text \<open>
  Iterating \<^verbatim>\<open>None\<close> raises TypeError. Iterating a dict yields its keys, which are
  strings: \<^verbatim>\<open>PilotReputation(**r)\<close> raises TypeError on the first, and a dict with
  no key gives the empty list.
\<close>

definition list_pilot_reputation ::
  "uuid \<Rightarrow> User \<Rightarrow> 's client \<Rightarrow> 's world \<Rightarrow> (error + PilotReputation list) \<times> 's world" where
  "list_pilot_reputation pilot_id current_user db w =
     (case verify_pilot_ownership pilot_id current_user db w of
        (Inl e, w1) \<Rightarrow> (Inl e, w1)
      | (Inr owned, w1) \<Rightarrow>
          if \<not> owned then (Inl (HTTPException 404 ''Pilot not found''), w1)
          else
            (case execute db (reputation_query pilot_id) w1 of
               (Inl e, w2) \<Rightarrow> (Inl e, w2)
             | (Inr result, w2) \<Rightarrow>
                 ((case result of
                     Rows rs \<Rightarrow> reputation_rows rs
                   | NoData \<Rightarrow> Inl TypeError
                   | OneRow d \<Rightarrow> if d = [] then Inr [] else Inl TypeError), w2)))"

definition history_query :: "uuid \<Rightarrow> request" where
  "history_query pilot_id =
     \<lparr>table = ''reputation_changes'', action = Select ''*, corporations(name)'',
      eqs = [(''pilot_id'', JUuid pilot_id)], order = Some (''created_at'', True),
      single = False\<rparr>"

text \<open>
  \<^verbatim>\<open>ReputationChangeWithCorp(**r, corporation_name=corp_name)\<close>: a keyword given
  twice is a TypeError.
\<close>

definition with_corporation_name :: "pydict \<Rightarrow> jval \<Rightarrow> error + ReputationChangeWithCorp" where
  "with_corporation_name r corp_name =
     (if map_of r ''corporation_name'' \<noteq> None then Inl TypeError
      else new_ReputationChangeWithCorp (r @ [(''corporation_name'', corp_name)]))"

text \<open>The loop over \<^verbatim>\<open>result.data\<close>, with \<^verbatim>\<open>changes\<close> as the accumulator.\<close>

fun history_rows ::
  "pydict list \<Rightarrow> ReputationChangeWithCorp list \<Rightarrow> error + ReputationChangeWithCorp list" where
  "history_rows [] changes = Inr changes"
| "history_rows (r # rs) changes =
     (case dict_pop ''corporations'' (JObj []) r of
        (corp, r') \<Rightarrow>
          and_then (dict_get corp ''name'' (JStr ''Unknown'')) (\<lambda>corp_name.
          and_then (with_corporation_name r' corp_name) (\<lambda>c.
            history_rows rs (changes @ [c]))))"

text \<open>
  Over a dict the loop variable is a key, a string, and \<^verbatim>\<open>r.pop\<close> raises
  AttributeError.
\<close>

definition list_pilot_reputation_history ::
  "uuid \<Rightarrow> User \<Rightarrow> 's client \<Rightarrow> 's world
     \<Rightarrow> (error + ReputationChangeWithCorp list) \<times> 's world" where
  "list_pilot_reputation_history pilot_id current_user db w =
     (case verify_pilot_ownership pilot_id current_user db w of
        (Inl e, w1) \<Rightarrow> (Inl e, w1)
      | (Inr owned, w1) \<Rightarrow>
          if \<not> owned then (Inl (HTTPException 404 ''Pilot not found''), w1)
          else
            (case execute db (history_query pilot_id) w1 of
               (Inl e, w2) \<Rightarrow> (Inl e, w2)
             | (Inr result, w2) \<Rightarrow>
                 ((case result of
                     Rows rs \<Rightarrow> history_rows rs []
                   | NoData \<Rightarrow> Inl TypeError
                   | OneRow d \<Rightarrow> if d = [] then Inr [] else Inl AttributeError), w2)))"

text \<open>A sequence of calls to the three operations, each in the world the last one left.\<close>

datatype call =
    VerifyOwnership uuid User
  | ListReputation uuid User
  | ListHistory uuid User

fun run_call :: "'s client \<Rightarrow> call \<Rightarrow> 's world \<Rightarrow> 's world" where
  "run_call db (VerifyOwnership p u) w = snd (verify_pilot_ownership p u db w)"
| "run_call db (ListReputation p u) w = snd (list_pilot_reputation p u db w)"
| "run_call db (ListHistory p u) w = snd (list_pilot_reputation_history p u db w)"

definition run_calls :: "'s client \<Rightarrow> call list \<Rightarrow> 's world \<Rightarrow> 's world" where
  "run_calls db cs w = fold (run_call db) cs w"

section \<open>The backing store behind the client\<close>

text \<open>
  Modelled from the spec: the tables of the backing store, whose schema is not among the
  sources. The spec lists a \<^verbatim>\<open>pilots\<close> table keyed by id with an owner reference, a
  \<^verbatim>\<open>corporations\<close> table with a name, and the append-only \<^verbatim>\<open>reputation_changes\<close>
  ledger, whose rows have the fields of \<open>ReputationChange\<close>. No key or reference
  constraint is built into the type: a store may hold two pilots of one id or a change
  whose corporation is missing.
\<close>

record pilots_row =
  pilots_id :: uuid
  pilots_user_id :: uuid

record corporations_row =
  corporations_id :: uuid
  corporations_name :: string

record store =
  pilots :: "pilots_row list"
  corporations :: "corporations_row list"
  reputation_changes :: "ReputationChange list"

text \<open>The ledger rows of one (pilot, corporation) pair.\<close>

definition ledger :: "store \<Rightarrow> uuid \<Rightarrow> uuid \<Rightarrow> ReputationChange list" where
  "ledger st p c =
     filter (\<lambda>r. ch_pilot_id r = p \<and> ch_corporation_id r = c) (reputation_changes st)"

text \<open>
  Modelled from the spec: the \<^verbatim>\<open>pilot_reputation\<close> view, whose SQL is not among the
  sources. The spec: a derived aggregate (pilot, corporation, corporation name, summed
  value), the sum of all change magnitudes of the pair, recomputed on every read. One row
  per pair that has a ledger row, joined with the corporation of that id.
\<close>

definition pilot_reputation :: "store \<Rightarrow> PilotReputation list" where
  "pilot_reputation st =
     [\<lparr>pr_pilot_id = fst pc, pr_corporation_id = snd pc,
       pr_corporation_name = corporations_name k,
       pr_reputation_value = sum_list (map ch_change_value (ledger st (fst pc) (snd pc)))\<rparr>.
      pc \<leftarrow> remdups (map (\<lambda>r. (ch_pilot_id r, ch_corporation_id r)) (reputation_changes st)),
      k \<leftarrow> filter (\<lambda>k. corporations_id k = snd pc) (corporations st)]"

text \<open>The rows of each relation as the dicts the client returns.\<close>

definition pilots_columns :: "pilots_row \<Rightarrow> pydict" where
  "pilots_columns r = [(''id'', JUuid (pilots_id r)), (''user_id'', JUuid (pilots_user_id r))]"

definition corporations_columns :: "corporations_row \<Rightarrow> pydict" where
  "corporations_columns r =
     [(''id'', JUuid (corporations_id r)), (''name'', JStr (corporations_name r))]"

definition reputation_changes_columns :: "ReputationChange \<Rightarrow> pydict" where
  "reputation_changes_columns r =
     [(''id'', JUuid (ch_id r)), (''log_entry_id'', JUuid (ch_log_entry_id r)),
      (''pilot_id'', JUuid (ch_pilot_id r)), (''corporation_id'', JUuid (ch_corporation_id r)),
      (''change_value'', JInt (ch_change_value r)),
      (''notes'', case ch_notes r of None \<Rightarrow> JNull | Some s \<Rightarrow> JStr s),
      (''created_at'', JTime (ch_created_at r))]"

definition pilot_reputation_columns :: "PilotReputation \<Rightarrow> pydict" where
  "pilot_reputation_columns r =
     [(''pilot_id'', JUuid (pr_pilot_id r)), (''corporation_id'', JUuid (pr_corporation_id r)),
      (''corporation_name'', JStr (pr_corporation_name r)),
      (''reputation_value'', JInt (pr_reputation_value r))]"

definition relation :: "store \<Rightarrow> string \<Rightarrow> pydict list option" where
  "relation st t =
     (if t = ''pilots'' then Some (map pilots_columns (pilots st))
      else if t = ''corporations'' then Some (map corporations_columns (corporations st))
      else if t = ''reputation_changes''
        then Some (map reputation_changes_columns (reputation_changes st))
      else if t = ''pilot_reputation''
        then Some (map pilot_reputation_columns (pilot_reputation st))
      else None)"

text \<open>\<^verbatim>\<open>.eq(column, value)\<close>: the rows whose column holds the value.\<close>

definition matches :: "(string \<times> jval) list \<Rightarrow> pydict \<Rightarrow> bool" where
  "matches fs r = list_all (\<lambda>f. map_of r (fst f) = Some (snd f)) fs"

text \<open>
  \<^verbatim>\<open>.order(column, desc=d)\<close>, for the integer and timestamp columns (the only kind
  this router orders by): ascending by the column's value, reversed when \<^verbatim>\<open>desc\<close>.
\<close>

fun sort_value :: "jval option \<Rightarrow> int" where
  "sort_value (Some (JInt i)) = i"
| "sort_value (Some (JTime t)) = t"
| "sort_value _ = 0"

definition ordered :: "(string \<times> bool) option \<Rightarrow> pydict list \<Rightarrow> pydict list" where
  "ordered ob rs =
     (case ob of
        None \<Rightarrow> rs
      | Some cd \<Rightarrow>
          if snd cd then rev (sort_key (\<lambda>r. sort_value (map_of r (fst cd))) rs)
          else sort_key (\<lambda>r. sort_value (map_of r (fst cd))) rs)"

text \<open>
  The embedded resource \<^verbatim>\<open>corporations(name)\<close> of a ledger row: the name of the
  corporation the row refers to, as a nested dict, and \<^verbatim>\<open>null\<close> when there is none.
\<close>

definition embed_corporation :: "store \<Rightarrow> pydict \<Rightarrow> jval" where
  "embed_corporation st r =
     (case List.find (\<lambda>k. map_of r ''corporation_id'' = Some (JUuid (corporations_id k)))
             (corporations st) of
        None \<Rightarrow> JNull
      | Some k \<Rightarrow> JObj [(''name'', JStr (corporations_name k))])"

text \<open>
  The three column lists this router selects; any other expression is answered with an
  error here.
\<close>

definition select_columns :: "store \<Rightarrow> string \<Rightarrow> string \<Rightarrow> (pydict \<Rightarrow> pydict) option" where
  "select_columns st t cols =
     (if cols = ''*'' then Some (\<lambda>r. r)
      else if cols = ''id'' then Some (filter (\<lambda>kv. fst kv = ''id''))
      else if cols = ''*, corporations(name)'' \<and> t = ''reputation_changes''
        then Some (\<lambda>r. r @ [(''corporations'', embed_corporation st r)])
      else None)"

text \<open>\<^verbatim>\<open>.delete()\<close> removes the matching rows of a table; the view cannot be written.\<close>

definition delete_rows :: "request \<Rightarrow> store \<Rightarrow> store option" where
  "delete_rows q st =
     (if table q = ''pilots''
        then Some (st\<lparr>pilots := filter (\<lambda>r. \<not> matches (eqs q) (pilots_columns r)) (pilots st)\<rparr>)
      else if table q = ''corporations''
        then Some (st\<lparr>corporations :=
               filter (\<lambda>r. \<not> matches (eqs q) (corporations_columns r)) (corporations st)\<rparr>)
      else if table q = ''reputation_changes''
        then Some (st\<lparr>reputation_changes :=
               filter (\<lambda>r. \<not> matches (eqs q) (reputation_changes_columns r))
                 (reputation_changes st)\<rparr>)
      else None)"

text \<open>
  The contract of the PostgREST client library behind \<^verbatim>\<open>db\<close> (external to the
  repository). A select answers with the list of matching rows. With \<^verbatim>\<open>.single()\<close> the
  request asks for exactly one object: when the filters match no row, or more than one,
  the server answers with an error and \<^verbatim>\<open>.execute()\<close> raises APIError; the variant
  that returns nothing for no row is \<^verbatim>\<open>.maybe_single()\<close>, which this router does not
  call.
\<close>

definition postgrest :: "store client" where
  "postgrest q st =
     (case relation st (table q) of
        None \<Rightarrow> (Inl APIError, st)
      | Some rows \<Rightarrow>
          (case action q of
             Select cols \<Rightarrow>
               (case select_columns st (table q) cols of
                  None \<Rightarrow> (Inl APIError, st)
                | Some proj \<Rightarrow>
                    (case map proj (ordered (order q) (filter (matches (eqs q)) rows)) of
                       rs \<Rightarrow>
                         (if single q
                          then (case rs of [r] \<Rightarrow> Inr (OneRow r) | _ \<Rightarrow> Inl APIError)
                          else Inr (Rows rs), st)))
           | Delete \<Rightarrow>
               (case delete_rows q st of
                  None \<Rightarrow> (Inl APIError, st)
                | Some st' \<Rightarrow> (Inr (Rows (filter (matches (eqs q)) rows)), st'))))"

text \<open>A client whose reads leave the backend as it was.\<close>

definition is_select :: "request \<Rightarrow> bool" where
  "is_select q = (case action q of Select cols \<Rightarrow> True | Delete \<Rightarrow> False)"

definition selects_read_only :: "'s client \<Rightarrow> bool" where
  "selects_read_only db = (\<forall>q s. is_select q \<longrightarrow> snd (db q s) = s)"

text \<open>
  The pilot rows a lookup by \<open>verify_pilot_ownership\<close> matches, and the ledger rows of a
  pilot.
\<close>

definition owned_rows :: "store \<Rightarrow> uuid \<Rightarrow> User \<Rightarrow> pilots_row list" where
  "owned_rows st p u =
     filter (\<lambda>r. pilots_id r = p \<and> pilots_user_id r = user_id u) (pilots st)"

definition history_of :: "store \<Rightarrow> uuid \<Rightarrow> ReputationChange list" where
  "history_of st p = filter (\<lambda>c. ch_pilot_id c = p) (reputation_changes st)"

section \<open>Example data\<close>

text \<open>
  The scenario of the spec: pilot 1 of user 7 has three ledger rows with corporation 30,
  of values +5, -2 and +10, created at times 100, 200 and 300. Pilot 3 of the same user
  has no ledger row, user 8 owns no pilot, and there is no pilot 2.
\<close>

definition user_U :: User where
  "user_U = \<lparr>user_id = 7\<rparr>"

definition user_V :: User where
  "user_V = \<lparr>user_id = 8\<rparr>"

definition change1 :: ReputationChange where
  "change1 = \<lparr>ch_corporation_id = 30, ch_change_value = 5, ch_notes = None, ch_id = 41,
              ch_log_entry_id = 51, ch_pilot_id = 1, ch_created_at = 100\<rparr>"

definition change2 :: ReputationChange where
  "change2 = \<lparr>ch_corporation_id = 30, ch_change_value = - 2, ch_notes = Some ''fine'',
              ch_id = 42, ch_log_entry_id = 52, ch_pilot_id = 1, ch_created_at = 200\<rparr>"

definition change3 :: ReputationChange where
  "change3 = \<lparr>ch_corporation_id = 30, ch_change_value = 10, ch_notes = None, ch_id = 43,
              ch_log_entry_id = 53, ch_pilot_id = 1, ch_created_at = 300\<rparr>"

definition scenario :: store where
  "scenario = \<lparr>pilots = [\<lparr>pilots_id = 1, pilots_user_id = 7\<rparr>,
                         \<lparr>pilots_id = 3, pilots_user_id = 7\<rparr>],
               corporations = [\<lparr>corporations_id = 30, corporations_name = ''C-Name''\<rparr>],
               reputation_changes = [change1, change2, change3]\<rparr>"

definition aggregate13 :: PilotReputation where
  "aggregate13 = \<lparr>pr_pilot_id = 1, pr_corporation_id = 30, pr_corporation_name = ''C-Name'',
                  pr_reputation_value = 13\<rparr>"

definition entry1 :: ReputationChangeWithCorp where
  "entry1 = \<lparr>ch_corporation_id = 30, ch_change_value = 5, ch_notes = None, ch_id = 41,
             ch_log_entry_id = 51, ch_pilot_id = 1, ch_created_at = 100,
             ch_corporation_name = ''C-Name''\<rparr>"

definition entry2 :: ReputationChangeWithCorp where
  "entry2 = \<lparr>ch_corporation_id = 30, ch_change_value = - 2, ch_notes = Some ''fine'',
             ch_id = 42, ch_log_entry_id = 52, ch_pilot_id = 1, ch_created_at = 200,
             ch_corporation_name = ''C-Name''\<rparr>"

definition entry3 :: ReputationChangeWithCorp where
  "entry3 = \<lparr>ch_corporation_id = 30, ch_change_value = 10, ch_notes = None, ch_id = 43,
             ch_log_entry_id = 53, ch_pilot_id = 1, ch_created_at = 300,
             ch_corporation_name = ''C-Name''\<rparr>"

definition start :: "store world" where
  "start = \<lparr>backend = scenario, issued = []\<rparr>"

text \<open>A client double whose lookup answers with no data and no error.\<close>

definition lookup_without_data :: "unit client" where
  "lookup_without_data q s = (Inr NoData, s)"

text \<open>Keyword arguments of a gear that was lost, without \<^verbatim>\<open>is_lost\<close>.\<close>

definition lost_gear_kwargs :: pydict where
  "lost_gear_kwargs =
     [(''id'', JUuid 1), (''pilot_id'', JUuid 2), (''name'', JStr ''Railgun''),
      (''acquired_date'', JTime 10), (''lost_log_id'', JUuid 9),
      (''created_at'', JTime 10), (''updated_at'', JTime 20)]"

text \<open>
  A ledger row as the history query returns it when the row's corporation is not found:
  the embedded resource is \<^verbatim>\<open>null\<close>.
\<close>

definition row_without_corporation :: pydict where
  "row_without_corporation =
     reputation_changes_columns change1 @ [(''corporations'', JNull)]"

text \<open>The same row when the corporation is found and its name is \<^verbatim>\<open>null\<close>.\<close>

definition row_with_unnamed_corporation :: pydict where
  "row_with_unnamed_corporation =
     reputation_changes_columns change1 @ [(''corporations'', JObj [(''name'', JNull)])]"

text \<open>Two rows of a history response, the newer first.\<close>

definition history_response :: "pydict list" where
  "history_response =
     [reputation_changes_columns change3 @ [(''corporations'', JObj [(''name'', JStr ''C-Name'')])],
      reputation_changes_columns change1 @ [(''corporations'', JObj [(''name'', JStr ''C-Name'')])]]"

section \<open>Basic facts\<close>

lemmas example_defs = user_U_def user_V_def change1_def change2_def change3_def
  scenario_def start_def

lemmas postgrest_defs = postgrest_def relation_def matches_def ordered_def
  select_columns_def embed_corporation_def pilots_columns_def reputation_changes_columns_def
  pilot_reputation_columns_def pilot_reputation_def ledger_def

lemmas router_defs = verify_pilot_ownership_def list_pilot_reputation_def
  list_pilot_reputation_history_def execute_def pilots_query_def reputation_query_def
  history_query_def

lemmas schema_defs = and_then_def dict_pop_def dict_get_def with_corporation_name_def
  new_ReputationChangeWithCorp_def new_PilotReputation_def field_uuid_def field_int_def
  field_str_def field_str_opt_def field_datetime_def

lemma and_then_Inr: "and_then r f = Inr y \<longleftrightarrow> (\<exists>x. r = Inr x \<and> f x = Inr y)"
  by (cases r) (simp_all add: and_then_def)

lemma execute_backend: "backend (snd (execute db q w)) = snd (db q (backend w))"
  by (simp add: execute_def split: prod.splits)

lemma execute_issued: "issued (snd (execute db q w)) = issued w @ [q]"
  by (simp add: execute_def split: prod.splits)

lemma verify_snd:
  "snd (verify_pilot_ownership p u db w) = snd (execute db (pilots_query p u) w)"
  by (simp add: verify_pilot_ownership_def split: prod.splits sum.splits)

lemma is_select_queries [simp]:
  "is_select (pilots_query p u)" "is_select (reputation_query p)" "is_select (history_query p)"
  by (simp_all add: is_select_def pilots_query_def reputation_query_def history_query_def)

subsection \<open>What the endpoints issue, and in which order\<close>

lemma list_reputation_issued:
  "issued (snd (list_pilot_reputation p u db w)) = issued w @ [pilots_query p u]
   \<or> issued (snd (list_pilot_reputation p u db w))
       = issued w @ [pilots_query p u, reputation_query p]"
  using verify_snd [of p u db w]
  by (auto simp: list_pilot_reputation_def execute_def split: prod.splits sum.splits)

lemma list_history_issued:
  "issued (snd (list_pilot_reputation_history p u db w)) = issued w @ [pilots_query p u]
   \<or> issued (snd (list_pilot_reputation_history p u db w))
       = issued w @ [pilots_query p u, history_query p]"
  using verify_snd [of p u db w]
  by (auto simp: list_pilot_reputation_history_def execute_def split: prod.splits sum.splits)

lemma list_reputation_not_owned:
  assumes "fst (verify_pilot_ownership p u db w) = Inr False"
  shows "list_pilot_reputation p u db w =
           (Inl (HTTPException 404 ''Pilot not found''), snd (verify_pilot_ownership p u db w))"
  using assms by (cases "verify_pilot_ownership p u db w") (simp add: list_pilot_reputation_def)

lemma list_history_not_owned:
  assumes "fst (verify_pilot_ownership p u db w) = Inr False"
  shows "list_pilot_reputation_history p u db w =
           (Inl (HTTPException 404 ''Pilot not found''), snd (verify_pilot_ownership p u db w))"
  using assms
  by (cases "verify_pilot_ownership p u db w") (simp add: list_pilot_reputation_history_def)

subsection \<open>Reads leave the backend alone\<close>

lemma execute_read_only:
  "selects_read_only db \<Longrightarrow> is_select q \<Longrightarrow> backend (snd (execute db q w)) = backend w"
  by (simp add: execute_backend selects_read_only_def)

lemma verify_read_only:
  "selects_read_only db \<Longrightarrow> backend (snd (verify_pilot_ownership p u db w)) = backend w"
  by (simp add: verify_snd execute_read_only)

lemma list_reputation_read_only:
  assumes "selects_read_only db"
  shows "backend (snd (list_pilot_reputation p u db w)) = backend w"
proof -
  have v: "backend (snd (verify_pilot_ownership p u db w)) = backend w"
    using assms by (rule verify_read_only)
  show ?thesis
    using v execute_read_only [OF assms, of "reputation_query p"
        "snd (verify_pilot_ownership p u db w)"]
    by (auto simp: list_pilot_reputation_def split: prod.splits sum.splits)
qed

lemma list_history_read_only:
  assumes "selects_read_only db"
  shows "backend (snd (list_pilot_reputation_history p u db w)) = backend w"
proof -
  have v: "backend (snd (verify_pilot_ownership p u db w)) = backend w"
    using assms by (rule verify_read_only)
  show ?thesis
    using v execute_read_only [OF assms, of "history_query p"
        "snd (verify_pilot_ownership p u db w)"]
    by (auto simp: list_pilot_reputation_history_def split: prod.splits sum.splits)
qed

lemma run_call_read_only:
  "selects_read_only db \<Longrightarrow> backend (run_call db c w) = backend w"
  by (cases c) (simp_all add: verify_read_only list_reputation_read_only list_history_read_only)

lemma run_call_issued:
  "\<exists>new. issued (run_call db c w) = issued w @ new \<and> list_all is_select new"
proof (cases c)
  case (VerifyOwnership p u)
  then show ?thesis by (simp add: verify_snd execute_issued)
next
  case (ListReputation p u)
  then show ?thesis using list_reputation_issued [of p u db w] by auto
next
  case (ListHistory p u)
  then show ?thesis using list_history_issued [of p u db w] by auto
qed

lemma run_calls_read_only:
  "selects_read_only db \<Longrightarrow> backend (run_calls db cs w) = backend w"
  unfolding run_calls_def
  by (induction cs arbitrary: w) (simp_all add: run_call_read_only)

lemma run_calls_issued:
  "\<exists>new. issued (run_calls db cs w) = issued w @ new \<and> list_all is_select new"
  unfolding run_calls_def
proof (induction cs arbitrary: w)
  case Nil
  then show ?case by simp
next
  case (Cons c cs)
  obtain n1 where n1: "issued (run_call db c w) = issued w @ n1" "list_all is_select n1"
    using run_call_issued by blast
  obtain n2 where n2:
    "issued (fold (run_call db) cs (run_call db c w)) = issued (run_call db c w) @ n2"
    "list_all is_select n2"
    using Cons.IH by blast
  have "issued (fold (run_call db) (c # cs) w) = issued w @ (n1 @ n2)"
    using n1 n2 by simp
  moreover have "list_all is_select (n1 @ n2)"
    using n1 n2 by simp
  ultimately show ?case by blast
qed

lemma postgrest_selects_read_only: "selects_read_only postgrest"
  by (auto simp: selects_read_only_def is_select_def postgrest_def
      split: option.splits action.splits list.splits)

subsection \<open>The ownership lookup against the store\<close>

lemma single_case:
  "(case zs of [r] \<Rightarrow> f r | _ \<Rightarrow> g) = (if length zs = 1 then f (hd zs) else g)"
  by (cases zs) (auto split: list.splits)

lemma matches_pilots:
  "matches [(''id'', JUuid p), (''user_id'', JUuid i)] (pilots_columns r)
     \<longleftrightarrow> pilots_id r = p \<and> pilots_user_id r = i"
  by (auto simp: matches_def pilots_columns_def)

lemma postgrest_pilots_query:
  "postgrest (pilots_query p u) st =
     (if length (owned_rows st p u) = 1
      then Inr (OneRow [(''id'', JUuid p)]) else Inl APIError, st)"
proof -
  have f: "filter (matches [(''id'', JUuid p), (''user_id'', JUuid (user_id u))])
             (map pilots_columns (pilots st)) = map pilots_columns (owned_rows st p u)"
    by (simp add: filter_map comp_def matches_pilots owned_rows_def)
  have h: "hd (map (filter (\<lambda>kv. fst kv = ''id'') \<circ> pilots_columns) (owned_rows st p u))
               = [(''id'', JUuid p)]" if len: "length (owned_rows st p u) = 1"
  proof -
    obtain r where r: "owned_rows st p u = [r]"
      using len by (cases "owned_rows st p u") auto
    then have "r \<in> set (owned_rows st p u)" by simp
    then have "pilots_id r = p" by (simp add: owned_rows_def)
    then show ?thesis using r by (simp add: pilots_columns_def)
  qed
  show ?thesis
    using h
    by (simp add: postgrest_def pilots_query_def relation_def select_columns_def ordered_def
        single_case f)
qed

lemma postgrest_verify:
  "verify_pilot_ownership p u postgrest w =
     (if length (owned_rows (backend w) p u) = 1 then Inr True else Inl APIError,
      \<lparr>backend = backend w, issued = issued w @ [pilots_query p u]\<rparr>)"
  by (simp add: verify_pilot_ownership_def execute_def postgrest_pilots_query)

subsection \<open>The aggregate read against the store\<close>

lemma matches_reputation:
  "matches [(''pilot_id'', JUuid p)] (pilot_reputation_columns v) \<longleftrightarrow> pr_pilot_id v = p"
  by (auto simp: matches_def pilot_reputation_columns_def)

lemma new_PilotReputation_columns:
  "new_PilotReputation (pilot_reputation_columns v) = Inr v"
  by (simp add: new_PilotReputation_def pilot_reputation_columns_def and_then_def
      field_uuid_def field_str_def field_int_def)

lemma reputation_rows_columns:
  "reputation_rows (map pilot_reputation_columns vs) = Inr vs"
  by (induction vs) (simp_all add: new_PilotReputation_columns and_then_def)

lemma postgrest_reputation_query:
  "postgrest (reputation_query p) st =
     (Inr (Rows (map pilot_reputation_columns
                  (filter (\<lambda>v. pr_pilot_id v = p) (pilot_reputation st)))), st)"
  by (simp add: postgrest_def reputation_query_def relation_def select_columns_def ordered_def
      filter_map comp_def matches_reputation)

lemma postgrest_list_reputation:
  "list_pilot_reputation p u postgrest w =
     (if length (owned_rows (backend w) p u) = 1
      then (Inr (filter (\<lambda>v. pr_pilot_id v = p) (pilot_reputation (backend w))),
            \<lparr>backend = backend w, issued = issued w @ [pilots_query p u, reputation_query p]\<rparr>)
      else (Inl APIError, \<lparr>backend = backend w, issued = issued w @ [pilots_query p u]\<rparr>))"
  by (simp add: list_pilot_reputation_def postgrest_verify execute_def
      postgrest_reputation_query reputation_rows_columns)

lemma pilot_reputation_row:
  assumes "v \<in> set (pilot_reputation st)"
  shows "pr_reputation_value v =
           sum_list (map ch_change_value (ledger st (pr_pilot_id v) (pr_corporation_id v)))"
    and "ledger st (pr_pilot_id v) (pr_corporation_id v) \<noteq> []"
proof -
  from assms obtain r where r: "r \<in> set (reputation_changes st)"
    and v1: "pr_pilot_id v = ch_pilot_id r" and v2: "pr_corporation_id v = ch_corporation_id r"
    and v3: "pr_reputation_value v =
               sum_list (map ch_change_value (ledger st (ch_pilot_id r) (ch_corporation_id r)))"
    by (auto simp: pilot_reputation_def)
  show "pr_reputation_value v =
           sum_list (map ch_change_value (ledger st (pr_pilot_id v) (pr_corporation_id v)))"
    using v1 v2 v3 by simp
  have "r \<in> set (ledger st (pr_pilot_id v) (pr_corporation_id v))"
    using r v1 v2 by (simp add: ledger_def)
  then show "ledger st (pr_pilot_id v) (pr_corporation_id v) \<noteq> []"
    by auto
qed

lemma no_history_no_reputation:
  assumes "history_of st p = []"
  shows "filter (\<lambda>v. pr_pilot_id v = p) (pilot_reputation st) = []"
proof -
  have "pr_pilot_id v \<noteq> p" if "v \<in> set (pilot_reputation st)" for v
  proof
    assume eq: "pr_pilot_id v = p"
    from pilot_reputation_row(2) [OF that] obtain r
      where "r \<in> set (ledger st (pr_pilot_id v) (pr_corporation_id v))"
      by (cases "ledger st (pr_pilot_id v) (pr_corporation_id v)") auto
    then have "r \<in> set (history_of st p)"
      using eq by (simp add: ledger_def history_of_def)
    then show False using assms by simp
  qed
  then show ?thesis by (simp add: filter_empty_conv)
qed

subsection \<open>The history read against the store\<close>

lemma matches_changes:
  "matches [(''pilot_id'', JUuid p)] (reputation_changes_columns c) \<longleftrightarrow> ch_pilot_id c = p"
  by (auto simp: matches_def reputation_changes_columns_def)

lemma insort_key_map:
  "insort_key f (g x) (map g xs) = map g (insort_key (\<lambda>a. f (g a)) x xs)"
  by (induction xs) simp_all

lemma sort_key_map: "sort_key f (map g xs) = map g (sort_key (\<lambda>a. f (g a)) xs)"
  by (induction xs) (simp_all add: insort_key_map)

lemma created_at_column:
  "sort_value (map_of (reputation_changes_columns c) ''created_at'') = ch_created_at c"
  by (simp add: reputation_changes_columns_def)

lemma postgrest_history_query:
  "postgrest (history_query p) st =
     (Inr (Rows (map (\<lambda>c. reputation_changes_columns c
                        @ [(''corporations'', embed_corporation st (reputation_changes_columns c))])
                  (rev (sort_key ch_created_at (history_of st p))))), st)"
  by (simp add: postgrest_def history_query_def relation_def select_columns_def ordered_def
      filter_map comp_def matches_changes sort_key_map created_at_column rev_map history_of_def)

lemma history_row_result:
  assumes "and_then (dict_get (embed_corporation st (reputation_changes_columns c)) ''name''
              (JStr ''Unknown''))
            (with_corporation_name (reputation_changes_columns c)) = Inr z"
  shows "ReputationChange.truncate z = c"
  using assms
  by (cases c)
    (auto simp: embed_corporation_def dict_get_def and_then_def with_corporation_name_def
      reputation_changes_columns_def new_ReputationChangeWithCorp_def field_uuid_def
      field_int_def field_str_def field_str_opt_def field_datetime_def
      ReputationChange.truncate_def ReputationChangeCreate.truncate_def
      split: option.splits)

lemma postgrest_list_history:
  "list_pilot_reputation_history p u postgrest w =
     (if length (owned_rows (backend w) p u) = 1
      then (history_rows
              (map (\<lambda>c. reputation_changes_columns c
                 @ [(''corporations'',
                     embed_corporation (backend w) (reputation_changes_columns c))])
                (rev (sort_key ch_created_at (history_of (backend w) p)))) [],
            \<lparr>backend = backend w, issued = issued w @ [pilots_query p u, history_query p]\<rparr>)
      else (Inl APIError, \<lparr>backend = backend w, issued = issued w @ [pilots_query p u]\<rparr>))"
proof -
  let ?w1 = "\<lparr>backend = backend w, issued = issued w @ [pilots_query p u]\<rparr>"
  have e: "execute postgrest (history_query p) ?w1 =
     (Inr (Rows (map (\<lambda>c. reputation_changes_columns c
                 @ [(''corporations'',
                     embed_corporation (backend w) (reputation_changes_columns c))])
                (rev (sort_key ch_created_at (history_of (backend w) p))))),
      \<lparr>backend = backend w, issued = issued w @ [pilots_query p u, history_query p]\<rparr>)"
    by (simp add: execute_def postgrest_history_query)
  show ?thesis
  proof (cases "length (owned_rows (backend w) p u) = 1")
    case True
    then have v: "verify_pilot_ownership p u postgrest w = (Inr True, ?w1)"
      by (simp add: postgrest_verify)
    show ?thesis
      unfolding list_pilot_reputation_history_def v using True by (simp add: e)
  next
    case False
    then have v: "verify_pilot_ownership p u postgrest w = (Inl APIError, ?w1)"
      by (simp add: postgrest_verify)
    show ?thesis
      unfolding list_pilot_reputation_history_def v using False by simp
  qed
qed

lemma dict_pop_corporations:
  "dict_pop ''corporations'' d (reputation_changes_columns c @ [(''corporations'', e)])
     = (e, reputation_changes_columns c)"
  by (simp add: dict_pop_def reputation_changes_columns_def)

lemma history_rows_step:
  "history_rows ((reputation_changes_columns c @ [(''corporations'', e)]) # rs) acc =
     (case and_then (dict_get e ''name'' (JStr ''Unknown''))
             (with_corporation_name (reputation_changes_columns c)) of
        Inl err \<Rightarrow> Inl err
      | Inr z \<Rightarrow> history_rows rs (acc @ [z]))"
proof (cases "dict_get e ''name'' (JStr ''Unknown'')")
  case (Inl err)
  then show ?thesis
    by (simp add: dict_pop_corporations and_then_def)
next
  case (Inr n)
  then show ?thesis
    by (cases "with_corporation_name (reputation_changes_columns c) n")
      (simp_all add: dict_pop_corporations and_then_def)
qed

lemma history_rows_unfold:
  assumes "history_rows
     (map (\<lambda>c. reputation_changes_columns c
               @ [(''corporations'', embed_corporation st (reputation_changes_columns c))])
        (c # cs)) acc = Inr zs"
  shows "(case and_then (dict_get (embed_corporation st (reputation_changes_columns c)) ''name''
                  (JStr ''Unknown''))
                (with_corporation_name (reputation_changes_columns c)) of
            Inl err \<Rightarrow> Inl err
          | Inr z \<Rightarrow>
              history_rows
                (map (\<lambda>c. reputation_changes_columns c
                   @ [(''corporations'', embed_corporation st (reputation_changes_columns c))])
                  cs) (acc @ [z]))
         = Inr zs"
  using assms by (simp only: list.map history_rows_step)

lemma sum_case_Inr:
  assumes "(case first of Inl err \<Rightarrow> Inl err | Inr z \<Rightarrow> k z) = Inr zs"
  obtains z where "first = Inr z" and "k z = Inr zs"
  using assms by (cases first) simp_all

lemma history_rows_result:
  "history_rows
     (map (\<lambda>c. reputation_changes_columns c
               @ [(''corporations'', embed_corporation st (reputation_changes_columns c))]) cs)
     acc = Inr zs
   \<Longrightarrow> \<exists>zs'. zs = acc @ zs' \<and> map ReputationChange.truncate zs' = cs"
proof (induction cs arbitrary: acc)
  case Nil
  then show ?case by simp
next
  case (Cons c cs)
  from history_rows_unfold [OF Cons.prems] obtain z where
    z: "and_then (dict_get (embed_corporation st (reputation_changes_columns c)) ''name''
              (JStr ''Unknown''))
            (with_corporation_name (reputation_changes_columns c)) = Inr z"
    and rest: "history_rows (map (\<lambda>c. reputation_changes_columns c
               @ [(''corporations'', embed_corporation st (reputation_changes_columns c))]) cs)
                 (acc @ [z]) = Inr zs"
    by (rule sum_case_Inr)
  from Cons.IH [OF rest] obtain zs' where
    zs': "zs = (acc @ [z]) @ zs'" "map ReputationChange.truncate zs' = cs"
    by blast
  have t: "ReputationChange.truncate z = c"
    using z by (rule history_row_result)
  have "zs = acc @ (z # zs') \<and> map ReputationChange.truncate (z # zs') = c # cs"
    using zs' t by simp
  then show ?case by (rule exI)
qed

lemma created_at_truncate: "ch_created_at (ReputationChange.truncate z) = ch_created_at z"
  by (simp add: ReputationChange.truncate_def)

lemma newest_first:
  "sorted_wrt (\<lambda>a b. ch_created_at b \<le> ch_created_at a)
     (rev (sort_key ch_created_at (cs :: ReputationChange list)))"
proof -
  have "sorted (map ch_created_at (sort_key ch_created_at cs))"
    by (rule sorted_sort_key)
  then have "sorted_wrt (\<lambda>a b. ch_created_at a \<le> ch_created_at b) (sort_key ch_created_at cs)"
    by (simp add: sorted_wrt_map)
  then show ?thesis
    by (simp add: sorted_wrt_rev)
qed

subsection \<open>The two loops, for any rows\<close>

lemma map_of_snoc_other: "k' \<noteq> k \<Longrightarrow> map_of (d @ [(k, v)]) k' = map_of d k'"
  by (induction d) auto

lemma map_of_without_other:
  "k' \<noteq> k \<Longrightarrow> map_of (filter (\<lambda>kv. fst kv \<noteq> k) d) k' = map_of d k'"
  by (induction d) auto

lemma dict_pop_other: "k' \<noteq> k \<Longrightarrow> map_of (snd (dict_pop k dflt d)) k' = map_of d k'"
  by (simp add: dict_pop_def map_of_without_other split: option.splits)

lemma new_ReputationChangeWithCorp_fields:
  assumes "new_ReputationChangeWithCorp kw = Inr z"
  shows "field_datetime kw ''created_at'' = Inr (ch_created_at z)"
    and "field_uuid kw ''id'' = Inr (ch_id z)"
proof -
  from assms obtain corp v n i l p t name where
    f: "field_uuid kw ''id'' = Inr i" "field_datetime kw ''created_at'' = Inr t"
    and z: "z = \<lparr>ch_corporation_id = corp, ch_change_value = v, ch_notes = n, ch_id = i,
            ch_log_entry_id = l, ch_pilot_id = p, ch_created_at = t,
            ch_corporation_name = name\<rparr>"
    unfolding new_ReputationChangeWithCorp_def and_then_Inr by blast
  show "field_datetime kw ''created_at'' = Inr (ch_created_at z)"
    using f z by simp
  show "field_uuid kw ''id'' = Inr (ch_id z)"
    using f z by simp
qed

lemma with_corporation_name_fields:
  assumes "with_corporation_name (snd (dict_pop ''corporations'' dflt r)) corp_name = Inr z"
  shows "field_datetime r ''created_at'' = Inr (ch_created_at z)"
    and "field_uuid r ''id'' = Inr (ch_id z)"
proof -
  let ?kw = "snd (dict_pop ''corporations'' dflt r) @ [(''corporation_name'', corp_name)]"
  from assms have n: "new_ReputationChangeWithCorp ?kw = Inr z"
    by (simp add: with_corporation_name_def split: if_splits)
  have t: "map_of ?kw ''created_at'' = map_of r ''created_at''"
    by (simp add: map_of_snoc_other dict_pop_other del: map_of_append)
  have i: "map_of ?kw ''id'' = map_of r ''id''"
    by (simp add: map_of_snoc_other dict_pop_other del: map_of_append)
  from new_ReputationChangeWithCorp_fields(1) [OF n] t
  show "field_datetime r ''created_at'' = Inr (ch_created_at z)"
    by (simp add: field_datetime_def)
  from new_ReputationChangeWithCorp_fields(2) [OF n] i
  show "field_uuid r ''id'' = Inr (ch_id z)"
    by (simp add: field_uuid_def)
qed

lemma history_rows_Cons:
  "history_rows (r # rs) acc =
     (case and_then (dict_get (fst (dict_pop ''corporations'' (JObj []) r)) ''name''
              (JStr ''Unknown''))
            (with_corporation_name (snd (dict_pop ''corporations'' (JObj []) r))) of
        Inl err \<Rightarrow> Inl err
      | Inr z \<Rightarrow> history_rows rs (acc @ [z]))"
  by (cases "dict_pop ''corporations'' (JObj []) r")
    (simp add: and_then_def split: sum.splits)

lemma history_rows_acc:
  "history_rows rs acc = Inr zs \<Longrightarrow>
     \<exists>zs'. zs = acc @ zs' \<and>
       list_all2 (\<lambda>r z. field_datetime r ''created_at'' = Inr (ch_created_at z)
                     \<and> field_uuid r ''id'' = Inr (ch_id z)) rs zs'"
proof (induction rs arbitrary: acc)
  case Nil
  then show ?case by simp
next
  case (Cons r rs)
  have "(case and_then (dict_get (fst (dict_pop ''corporations'' (JObj []) r)) ''name''
              (JStr ''Unknown''))
            (with_corporation_name (snd (dict_pop ''corporations'' (JObj []) r))) of
        Inl err \<Rightarrow> Inl err
      | Inr z \<Rightarrow> history_rows rs (acc @ [z])) = Inr zs"
    using Cons.prems by (simp only: history_rows_Cons)
  then obtain z where
    z: "and_then (dict_get (fst (dict_pop ''corporations'' (JObj []) r)) ''name''
              (JStr ''Unknown''))
            (with_corporation_name (snd (dict_pop ''corporations'' (JObj []) r))) = Inr z"
    and rest: "history_rows rs (acc @ [z]) = Inr zs"
    by (rule sum_case_Inr)
  from z obtain corp_name where
    w: "with_corporation_name (snd (dict_pop ''corporations'' (JObj []) r)) corp_name = Inr z"
    unfolding and_then_Inr by blast
  from Cons.IH [OF rest] obtain zs' where
    zs': "zs = (acc @ [z]) @ zs'"
      "list_all2 (\<lambda>r z. field_datetime r ''created_at'' = Inr (ch_created_at z)
                     \<and> field_uuid r ''id'' = Inr (ch_id z)) rs zs'"
    by blast
  have "zs = acc @ (z # zs') \<and>
       list_all2 (\<lambda>r z. field_datetime r ''created_at'' = Inr (ch_created_at z)
                     \<and> field_uuid r ''id'' = Inr (ch_id z)) (r # rs) (z # zs')"
    using zs' with_corporation_name_fields [OF w] by simp
  then show ?case by (rule exI)
qed

section \<open>Claims about the schema layer\<close>

text \<open>
  C10. A \<open>GearUpdate\<close> built from keyword arguments that give none of \<^verbatim>\<open>name\<close>,
  \<^verbatim>\<open>description\<close> and \<^verbatim>\<open>notes\<close> is accepted, and all three fields are \<^verbatim>\<open>None\<close>.
\<close>

theorem GearUpdate_all_omitted:
  assumes "map_of kw ''name'' = None" and "map_of kw ''description'' = None"
    and "map_of kw ''notes'' = None"
  shows "new_GearUpdate kw = Inr \<lparr>upd_name = None, upd_description = None, upd_notes = None\<rparr>"
  using assms by (simp add: new_GearUpdate_def and_then_def field_str_opt_def)

theorem GearUpdate_all_omitted_witness:
  "map_of ([] :: pydict) ''name'' = None \<and> map_of ([] :: pydict) ''description'' = None
   \<and> map_of ([] :: pydict) ''notes'' = None
   \<and> new_GearUpdate [] = Inr \<lparr>upd_name = None, upd_description = None, upd_notes = None\<rparr>"
  using GearUpdate_all_omitted [of "[]"] by simp

text \<open>
  C9. An \<open>ExoticGearWithLogInfo\<close> built without \<^verbatim>\<open>is_lost\<close> has \<^verbatim>\<open>is_lost = False\<close>,
  whatever \<^verbatim>\<open>lost_log_id\<close> it was given: \<^verbatim>\<open>lost_log_id\<close> is stored as passed and
  \<^verbatim>\<open>is_lost\<close> is not derived from it. The witness is a gear whose \<^verbatim>\<open>lost_log_id\<close> is
  set and whose \<^verbatim>\<open>is_lost\<close> is \<^verbatim>\<open>False\<close>.
\<close>

theorem is_lost_defaults_False:
  assumes "map_of kw ''is_lost'' = None"
    and "new_ExoticGearWithLogInfo kw = Inr g"
  shows "gear_is_lost g = False \<and> field_uuid_opt kw ''lost_log_id'' = Inr (gear_lost_log_id g)"
  using assms
  by (auto simp: new_ExoticGearWithLogInfo_def and_then_Inr field_bool_default_def)

theorem is_lost_defaults_False_witness:
  "map_of lost_gear_kwargs ''is_lost'' = None
   \<and> new_ExoticGearWithLogInfo lost_gear_kwargs =
       Inr \<lparr>gear_name = ''Railgun'', gear_description = None, gear_notes = None, gear_id = 1,
            gear_pilot_id = 2, gear_acquired_date = 10, gear_acquired_log_id = None,
            gear_lost_log_id = Some 9, gear_created_at = 10, gear_updated_at = 20,
            gear_is_lost = False\<rparr>
   \<and> field_uuid_opt lost_gear_kwargs ''lost_log_id'' = Inr (Some 9)"
proof -
  have a: "map_of lost_gear_kwargs ''is_lost'' = None"
    by (simp add: lost_gear_kwargs_def)
  have b: "new_ExoticGearWithLogInfo lost_gear_kwargs =
       Inr \<lparr>gear_name = ''Railgun'', gear_description = None, gear_notes = None, gear_id = 1,
            gear_pilot_id = 2, gear_acquired_date = 10, gear_acquired_log_id = None,
            gear_lost_log_id = Some 9, gear_created_at = 10, gear_updated_at = 20,
            gear_is_lost = False\<rparr>"
    by (simp add: lost_gear_kwargs_def new_ExoticGearWithLogInfo_def and_then_def
        field_str_def field_str_opt_def field_uuid_def field_uuid_opt_def field_datetime_def
        field_bool_default_def)
  from is_lost_defaults_False [OF a b] a b show ?thesis by simp
qed

section \<open>Claims about the control flow of the endpoints\<close>

text \<open>
  C3. With any client: when the ownership guard returns false, each endpoint fails with
  the 404 "Pilot not found" and the only request it has issued is the ownership lookup,
  so neither the read of the reputation view nor the read of the history is executed.
  In every run the ownership lookup is the first request an endpoint issues, and the
  reputation or history query, when issued, comes after it.
\<close>

theorem not_found_before_any_reputation_query:
  "(fst (verify_pilot_ownership p u db w) = Inr False \<longrightarrow>
      fst (list_pilot_reputation p u db w) = Inl (HTTPException 404 ''Pilot not found'')
      \<and> issued (snd (list_pilot_reputation p u db w)) = issued w @ [pilots_query p u]
      \<and> fst (list_pilot_reputation_history p u db w) = Inl (HTTPException 404 ''Pilot not found'')
      \<and> issued (snd (list_pilot_reputation_history p u db w)) = issued w @ [pilots_query p u])
   \<and> (issued (snd (list_pilot_reputation p u db w)) = issued w @ [pilots_query p u]
       \<or> issued (snd (list_pilot_reputation p u db w))
           = issued w @ [pilots_query p u, reputation_query p])
   \<and> (issued (snd (list_pilot_reputation_history p u db w)) = issued w @ [pilots_query p u]
       \<or> issued (snd (list_pilot_reputation_history p u db w))
           = issued w @ [pilots_query p u, history_query p])"
proof -
  have "issued (snd (verify_pilot_ownership p u db w)) = issued w @ [pilots_query p u]"
    by (simp add: verify_snd execute_issued)
  then show ?thesis
    using list_reputation_issued [of p u db w] list_history_issued [of p u db w]
    by (simp add: list_reputation_not_owned list_history_not_owned)
qed

theorem not_found_before_any_reputation_query_witness:
  "fst (verify_pilot_ownership 1 user_U lookup_without_data \<lparr>backend = (), issued = []\<rparr>)
     = Inr False
   \<and> fst (list_pilot_reputation 1 user_U lookup_without_data \<lparr>backend = (), issued = []\<rparr>)
     = Inl (HTTPException 404 ''Pilot not found'')
   \<and> issued (snd (list_pilot_reputation 1 user_U lookup_without_data
        \<lparr>backend = (), issued = []\<rparr>)) = [pilots_query 1 user_U]
   \<and> fst (list_pilot_reputation_history 1 user_U lookup_without_data
        \<lparr>backend = (), issued = []\<rparr>) = Inl (HTTPException 404 ''Pilot not found'')
   \<and> issued (snd (list_pilot_reputation_history 1 user_U lookup_without_data
        \<lparr>backend = (), issued = []\<rparr>)) = [pilots_query 1 user_U]"
proof -
  have g: "fst (verify_pilot_ownership 1 user_U lookup_without_data
             \<lparr>backend = (), issued = []\<rparr>) = Inr False"
    by (simp add: verify_pilot_ownership_def execute_def lookup_without_data_def)
  from not_found_before_any_reputation_query
    [of 1 user_U lookup_without_data "\<lparr>backend = (), issued = []\<rparr>"] g
  show ?thesis by simp
qed

text \<open>
  C8. The three operations issue select requests only. Hence, with a client whose
  selects leave the backend as it is, the backend after any sequence of calls to
  \<open>verify_pilot_ownership\<close>, \<open>list_pilot_reputation\<close> and
  \<open>list_pilot_reputation_history\<close> is the backend before it: no row of any table is
  created, updated or deleted.
\<close>

theorem operations_are_read_only:
  "(\<exists>new. issued (run_calls db cs w) = issued w @ new \<and> list_all is_select new)
   \<and> (selects_read_only db \<longrightarrow> backend (run_calls db cs w) = backend w)"
  using run_calls_issued [of db cs w] run_calls_read_only [of db cs w] by blast

theorem operations_are_read_only_witness:
  "selects_read_only postgrest
   \<and> backend (run_calls postgrest
        [ListReputation 1 user_U, ListHistory 1 user_V, VerifyOwnership 2 user_U,
         ListHistory 1 user_U] start) = scenario"
proof -
  have "backend start = scenario" by (simp add: start_def)
  then show ?thesis
    using postgrest_selects_read_only
      operations_are_read_only [of postgrest
        "[ListReputation 1 user_U, ListHistory 1 user_V, VerifyOwnership 2 user_U,
          ListHistory 1 user_U]" start]
    by simp
qed

section \<open>The two loops, whatever the client returns\<close>

text \<open>
  The list comprehension of \<open>list_pilot_reputation\<close> maps each row it is given, in
  order, through \<^verbatim>\<open>PilotReputation(**r)\<close>.
\<close>

theorem reputation_rows_maps_each_row:
  "reputation_rows rs = Inr xs \<Longrightarrow> map new_PilotReputation rs = map Inr xs"
proof (induction rs arbitrary: xs)
  case Nil
  then show ?case by simp
next
  case (Cons r rs)
  from Cons.prems obtain p ps where p: "new_PilotReputation r = Inr p"
    and ps: "reputation_rows rs = Inr ps" and xs: "xs = p # ps"
    by (auto simp: and_then_Inr)
  from Cons.IH [OF ps] p xs show ?case by simp
qed

theorem reputation_rows_maps_each_row_witness:
  "reputation_rows [pilot_reputation_columns aggregate13] = Inr [aggregate13]
   \<and> map new_PilotReputation [pilot_reputation_columns aggregate13] = map Inr [aggregate13]"
proof -
  have a: "reputation_rows [pilot_reputation_columns aggregate13] = Inr [aggregate13]"
    by (simp add: new_PilotReputation_columns and_then_def)
  from reputation_rows_maps_each_row [OF a] a show ?thesis
    by simp
qed

text \<open>
  The loop of \<open>list_pilot_reputation_history\<close> gives one entry per row, in the order of
  the rows: each entry has the \<^verbatim>\<open>created_at\<close> and the \<^verbatim>\<open>id\<close> of the row at its
  position. The order of the result is the order the store answered in.
\<close>

theorem history_rows_keep_order:
  assumes "history_rows rs [] = Inr zs"
  shows "list_all2 (\<lambda>r z. field_datetime r ''created_at'' = Inr (ch_created_at z)
                       \<and> field_uuid r ''id'' = Inr (ch_id z)) rs zs"
  using history_rows_acc [OF assms] by simp

theorem history_rows_keep_order_witness:
  "history_rows history_response [] = Inr [entry3, entry1]
   \<and> list_all2 (\<lambda>r z. field_datetime r ''created_at'' = Inr (ch_created_at z)
                    \<and> field_uuid r ''id'' = Inr (ch_id z)) history_response [entry3, entry1]"
proof -
  have a: "history_rows history_response [] = Inr [entry3, entry1]"
    by (simp add: history_response_def reputation_changes_columns_def change1_def change3_def
        entry1_def entry3_def schema_defs)
  from history_rows_keep_order [OF a] a show ?thesis
    by simp
qed

section \<open>The ownership guard against the store\<close>

text \<open>
  C2. The guard issues one lookup for the pilot rows that match both the identifier and
  the user as owner, and answers true exactly when one row matches. When no row matches,
  the lookup with \<^verbatim>\<open>.single()\<close> raises and the guard does not return false: here user 8
  asks for pilot 1, which belongs to user 7.
\<close>

theorem verify_pilot_ownership_raises_without_match:
  "owned_rows scenario 1 user_V = []
   \<and> verify_pilot_ownership 1 user_V postgrest start =
       (Inl APIError, \<lparr>backend = scenario, issued = [pilots_query 1 user_V]\<rparr>)"
  by (simp add: postgrest_verify, simp add: owned_rows_def example_defs)

text \<open>
  C1. For a pilot the user does not own, both endpoints end with the error of the
  lookup and not with the 404 of their own branch; the answer is the same whether the
  pilot belongs to someone else (pilot 1) or does not exist (pilot 2).
\<close>

theorem endpoints_not_404_for_foreign_pilot:
  "fst (list_pilot_reputation 1 user_V postgrest start) = Inl APIError
   \<and> fst (list_pilot_reputation_history 1 user_V postgrest start) = Inl APIError
   \<and> fst (list_pilot_reputation 2 user_V postgrest start) = Inl APIError
   \<and> fst (list_pilot_reputation_history 2 user_V postgrest start) = Inl APIError"
  by (simp add: list_pilot_reputation_def list_pilot_reputation_history_def postgrest_verify,
      simp add: owned_rows_def example_defs)

text \<open>
  The guard against the store, in general: it issues the one lookup, answers true when
  exactly one pilot row has both the identifier and the user as owner, and raises
  otherwise.
\<close>

theorem guard_true_iff_one_row:
  "fst (verify_pilot_ownership p u postgrest w) =
     (if length (owned_rows (backend w) p u) = 1 then Inr True else Inl APIError)
   \<and> issued (snd (verify_pilot_ownership p u postgrest w)) = issued w @ [pilots_query p u]"
  by (simp add: postgrest_verify)

text \<open>
  What a caller who owns no pilot of the identifier sees does not depend on the store:
  the answer of either endpoint and the requests it issues are the same whether the
  pilot exists or not.
\<close>

theorem unowned_pilot_indistinguishable:
  assumes "owned_rows st1 p u = []" and "owned_rows st2 p u = []"
  shows "fst (list_pilot_reputation p u postgrest \<lparr>backend = st1, issued = tr\<rparr>)
           = fst (list_pilot_reputation p u postgrest \<lparr>backend = st2, issued = tr\<rparr>)
     \<and> fst (list_pilot_reputation_history p u postgrest \<lparr>backend = st1, issued = tr\<rparr>)
           = fst (list_pilot_reputation_history p u postgrest \<lparr>backend = st2, issued = tr\<rparr>)
     \<and> issued (snd (list_pilot_reputation p u postgrest \<lparr>backend = st1, issued = tr\<rparr>))
           = issued (snd (list_pilot_reputation p u postgrest \<lparr>backend = st2, issued = tr\<rparr>))
     \<and> issued (snd (list_pilot_reputation_history p u postgrest \<lparr>backend = st1, issued = tr\<rparr>))
           = issued (snd (list_pilot_reputation_history p u postgrest
                \<lparr>backend = st2, issued = tr\<rparr>))"
  using assms by (simp add: postgrest_list_reputation postgrest_list_history)

theorem unowned_pilot_indistinguishable_witness:
  "owned_rows scenario 1 user_V = [] \<and> owned_rows (scenario\<lparr>pilots := []\<rparr>) 1 user_V = []
   \<and> fst (list_pilot_reputation 1 user_V postgrest \<lparr>backend = scenario, issued = []\<rparr>)
       = fst (list_pilot_reputation 1 user_V postgrest
               \<lparr>backend = scenario\<lparr>pilots := []\<rparr>, issued = []\<rparr>)
   \<and> fst (list_pilot_reputation_history 1 user_V postgrest \<lparr>backend = scenario, issued = []\<rparr>)
       = fst (list_pilot_reputation_history 1 user_V postgrest
               \<lparr>backend = scenario\<lparr>pilots := []\<rparr>, issued = []\<rparr>)"
proof -
  have a: "owned_rows scenario 1 user_V = []"
    and b: "owned_rows (scenario\<lparr>pilots := []\<rparr>) 1 user_V = []"
    by (simp_all add: owned_rows_def example_defs)
  from unowned_pilot_indistinguishable [OF a b, of "[]"] a b show ?thesis
    by simp
qed

section \<open>The aggregate and the history against the store\<close>

text \<open>
  C6. Against the store: a call that succeeds returns exactly the rows of the
  \<^verbatim>\<open>pilot_reputation\<close> view whose pilot is the one asked for, each row as a
  \<open>PilotReputation\<close> record with the row's own values, in the order of the view; and for
  an owner whose pilot has no ledger row the call succeeds with the empty list.
\<close>

theorem list_pilot_reputation_is_filtered_view:
  "(fst (list_pilot_reputation p u postgrest w) = Inr xs \<longrightarrow>
      xs = filter (\<lambda>v. pr_pilot_id v = p) (pilot_reputation (backend w)))
   \<and> (length (owned_rows (backend w) p u) = 1 \<and> history_of (backend w) p = [] \<longrightarrow>
      fst (list_pilot_reputation p u postgrest w) = Inr [])"
  by (auto simp: postgrest_list_reputation no_history_no_reputation)

theorem list_pilot_reputation_is_filtered_view_witness:
  "fst (list_pilot_reputation 1 user_U postgrest start) = Inr [aggregate13]
   \<and> filter (\<lambda>v. pr_pilot_id v = 1) (pilot_reputation (backend start)) = [aggregate13]
   \<and> length (owned_rows (backend start) 3 user_U) = 1
   \<and> history_of (backend start) 3 = []
   \<and> fst (list_pilot_reputation 3 user_U postgrest start) = Inr []"
proof -
  have a: "fst (list_pilot_reputation 1 user_U postgrest start) = Inr [aggregate13]"
    by (simp add: example_defs postgrest_defs router_defs schema_defs aggregate13_def)
  have b: "length (owned_rows (backend start) 3 user_U) = 1"
    "history_of (backend start) 3 = []"
    by (simp_all add: example_defs owned_rows_def history_of_def)
  from list_pilot_reputation_is_filtered_view [of 1 user_U start "[aggregate13]"]
    list_pilot_reputation_is_filtered_view [of 3 user_U start "[]"] a b
  show ?thesis by simp
qed

text \<open>
  C7. Every aggregate a successful call returns carries, as its \<^verbatim>\<open>reputation_value\<close>,
  the sum of \<^verbatim>\<open>change_value\<close> over all ledger rows of its (pilot, corporation) pair; the
  pilot of the pair is the one asked for, and the pair has at least one ledger row.
\<close>

theorem reputation_value_is_sum_of_changes:
  assumes "fst (list_pilot_reputation p u postgrest w) = Inr xs" and "v \<in> set xs"
  shows "pr_pilot_id v = p
     \<and> pr_reputation_value v =
         sum_list (map ch_change_value (ledger (backend w) p (pr_corporation_id v)))
     \<and> ledger (backend w) p (pr_corporation_id v) \<noteq> []"
proof -
  from assms have v: "v \<in> set (pilot_reputation (backend w))" and p: "pr_pilot_id v = p"
    by (auto simp: postgrest_list_reputation split: if_splits)
  from pilot_reputation_row [OF v] p show ?thesis by simp
qed

theorem reputation_value_is_sum_of_changes_witness:
  "fst (list_pilot_reputation 1 user_U postgrest start) = Inr [aggregate13]
   \<and> aggregate13 \<in> set [aggregate13]
   \<and> pr_reputation_value aggregate13 = 13
   \<and> sum_list (map ch_change_value (ledger scenario 1 30)) = 13
   \<and> ledger scenario 1 30 = [change1, change2, change3]"
proof -
  have a: "fst (list_pilot_reputation 1 user_U postgrest start) = Inr [aggregate13]"
    by (simp add: example_defs postgrest_defs router_defs schema_defs aggregate13_def)
  have b: "aggregate13 \<in> set [aggregate13]"
    by simp
  have c: "ledger scenario 1 30 = [change1, change2, change3]"
    by (simp add: example_defs ledger_def)
  have d: "backend start = scenario" "pr_corporation_id aggregate13 = 30"
    "pr_reputation_value aggregate13 = 13"
    by (simp_all add: start_def aggregate13_def)
  from reputation_value_is_sum_of_changes [OF a b] a b c d show ?thesis
    by simp
qed

text \<open>
  C4. Against the store: the list a successful call returns is ordered by creation time,
  newest first (every entry is at least as new as all later ones, and so as the next
  one), and it has one entry per ledger row of the pilot: without the corporation name,
  the entries are the pilot's ledger rows.
\<close>

theorem history_is_newest_first:
  assumes "fst (list_pilot_reputation_history p u postgrest w) = Inr xs"
  shows "sorted_wrt (\<lambda>a b. ch_created_at b \<le> ch_created_at a) xs
     \<and> (\<forall>i. Suc i < length xs \<longrightarrow> ch_created_at (xs ! Suc i) \<le> ch_created_at (xs ! i))
     \<and> mset (map ReputationChange.truncate xs) = mset (history_of (backend w) p)"
proof -
  let ?cs = "rev (sort_key ch_created_at (history_of (backend w) p))"
  from assms have "history_rows
      (map (\<lambda>c. reputation_changes_columns c
         @ [(''corporations'', embed_corporation (backend w) (reputation_changes_columns c))])
        ?cs) [] = Inr xs"
    by (simp add: postgrest_list_history split: if_splits)
  from history_rows_result [OF this] have tr: "map ReputationChange.truncate xs = ?cs"
    by simp
  have "sorted_wrt (\<lambda>a b. ch_created_at b \<le> ch_created_at a)
          (map ReputationChange.truncate xs)"
    unfolding tr by (rule newest_first)
  then have s: "sorted_wrt (\<lambda>a b. ch_created_at b \<le> ch_created_at a) xs"
    by (simp add: sorted_wrt_map created_at_truncate)
  have adj: "\<forall>i. Suc i < length xs \<longrightarrow> ch_created_at (xs ! Suc i) \<le> ch_created_at (xs ! i)"
    using s by (simp add: sorted_wrt_iff_nth_less)
  have "mset (map ReputationChange.truncate xs) = mset (history_of (backend w) p)"
    unfolding tr by simp
  with s adj show ?thesis by simp
qed

theorem history_is_newest_first_witness:
  "fst (list_pilot_reputation_history 1 user_U postgrest start) = Inr [entry3, entry2, entry1]
   \<and> map ch_created_at [entry3, entry2, entry1] = [300, 200, 100]
   \<and> sorted_wrt (\<lambda>a b. ch_created_at b \<le> ch_created_at a) [entry3, entry2, entry1]
   \<and> mset (map ReputationChange.truncate [entry3, entry2, entry1])
       = mset (history_of (backend start) 1)"
proof -
  have a: "fst (list_pilot_reputation_history 1 user_U postgrest start)
             = Inr [entry3, entry2, entry1]"
    by (simp add: example_defs postgrest_defs router_defs schema_defs entry1_def entry2_def
        entry3_def)
  have b: "map ch_created_at [entry3, entry2, entry1] = [300, 200, 100]"
    by (simp add: entry1_def entry2_def entry3_def)
  from history_is_newest_first [OF a] a b show ?thesis
    by simp
qed

section \<open>The history loop\<close>

text \<open>
  C5. A row whose embedded corporation is \<^verbatim>\<open>null\<close> does not get the placeholder: the
  loop raises AttributeError and the request fails. Against the store this is a ledger
  row whose corporation is not in the \<^verbatim>\<open>corporations\<close> table. A row whose corporation
  has the name \<^verbatim>\<open>null\<close> fails as well, in the validation of \<^verbatim>\<open>corporation_name\<close>.
\<close>

theorem history_row_without_corporation_fails:
  "history_rows [row_without_corporation] [] = Inl AttributeError
   \<and> fst (list_pilot_reputation_history 1 user_U postgrest
            \<lparr>backend = scenario\<lparr>corporations := []\<rparr>, issued = []\<rparr>) = Inl AttributeError
   \<and> history_rows [row_with_unnamed_corporation] [] = Inl ValidationError"
proof -
  have a: "history_rows [row_without_corporation] [] = Inl AttributeError"
    by (simp add: row_without_corporation_def reputation_changes_columns_def dict_pop_def
        dict_get_def and_then_def)
  have b: "fst (list_pilot_reputation_history 1 user_U postgrest
            \<lparr>backend = scenario\<lparr>corporations := []\<rparr>, issued = []\<rparr>) = Inl AttributeError"
    by (simp add: example_defs postgrest_defs router_defs schema_defs)
  have c: "history_rows [row_with_unnamed_corporation] [] = Inl ValidationError"
    by (simp add: row_with_unnamed_corporation_def reputation_changes_columns_def change1_def
        schema_defs)
  from a b c show ?thesis by simp
qed

text \<open>
  What the loop does do: a row without the key \<^verbatim>\<open>corporations\<close>, or whose embedded
  dict has no \<^verbatim>\<open>name\<close>, gets the placeholder, and an embedded name is copied into
  \<^verbatim>\<open>corporation_name\<close>.
\<close>

lemma corporation_name_placeholder:
  "and_then (dict_get (fst (dict_pop ''corporations'' (JObj []) (reputation_changes_columns c)))
       ''name'' (JStr ''Unknown''))
     (with_corporation_name (snd (dict_pop ''corporations'' (JObj []) (reputation_changes_columns c))))
   = Inr (ReputationChange.extend c (ReputationChangeWithCorp.fields ''Unknown''))"
  by (cases c)
    (simp add: dict_pop_def dict_get_def and_then_def with_corporation_name_def
      reputation_changes_columns_def new_ReputationChangeWithCorp_def field_uuid_def
      field_int_def field_str_def field_str_opt_def field_datetime_def
      ReputationChange.extend_def ReputationChangeWithCorp.fields_def
      split: option.splits)

lemma corporation_name_flattened:
  "and_then (dict_get (JObj [(''name'', JStr n)]) ''name'' (JStr ''Unknown''))
     (with_corporation_name (reputation_changes_columns c))
   = Inr (ReputationChange.extend c (ReputationChangeWithCorp.fields n))"
  by (cases c)
    (simp add: dict_get_def and_then_def with_corporation_name_def
      reputation_changes_columns_def new_ReputationChangeWithCorp_def field_uuid_def
      field_int_def field_str_def field_str_opt_def field_datetime_def
      ReputationChange.extend_def ReputationChangeWithCorp.fields_def
      split: option.splits)

end
